theory Spec2Isabelle
  imports Complex_Main
begin

section \<open>Vector operations of vector\_math\_calculator.py\<close>

text \<open>
  A vector is a Python list of numbers; the driver parses every component with
  \<open>float\<close>. A raised exception is the \<open>Inl\<close> branch of a sum type.

  The components have one of two models.
  \<^item> \<^typ>\<open>real\<close> stands for a finite float and computes exactly. It serves the operations
    whose properties below do not rest on rounding, and it leaves out rounding, overflow,
    underflow, infinities and not-a-number.
  \<^item> \<open>pyfloat\<close> is the float itself: a finite value, an infinity or not-a-number, with
    every arithmetic result rounded to the nearest double.

  Addition, subtraction, minimum, maximum and wrap use nothing of their components but
  \<open>+\<close>, \<open>-\<close>, \<open><\<close> and \<open>>\<close>; as in Python they are defined for every component type
  that has these, and so for both models and for Python's integers.
\<close>

datatype error = ValueError string | ZeroDivisionError | OverflowError string

type_synonym vector = "real list"

text \<open>The three messages the source raises \<open>ValueError\<close> with.\<close>

abbreviation DimensionMismatch :: error where
  "DimensionMismatch \<equiv> ValueError ''Vectors must have the same dimensions.''"

abbreviation InvalidDimension :: error where
  "InvalidDimension \<equiv> ValueError ''Cross product is defined only for 3-dimensional vectors.''"

abbreviation WrapDimensionMismatch :: error where
  "WrapDimensionMismatch \<equiv> ValueError ''Vector dimensions must match min_values and max_values.''"

subsection \<open>Python primitives\<close>

text \<open>\<open>a / b\<close> on Python numbers raises \<open>ZeroDivisionError\<close> when \<open>b\<close> is zero.\<close>

definition py_div :: "real \<Rightarrow> real \<Rightarrow> error + real" where
  "py_div a b = (if b = 0 then Inl ZeroDivisionError else Inr (a / b))"

text \<open>\<open>math.sqrt\<close> raises \<open>ValueError\<close> on a negative argument.\<close>

definition py_sqrt :: "real \<Rightarrow> error + real" where
  "py_sqrt x = (if x < 0 then Inl (ValueError ''math domain error'') else Inr (sqrt x))"

text \<open>
  The built-in \<open>max(a, b)\<close> keeps \<open>a\<close> unless \<open>b > a\<close>, and \<open>min(a, b)\<close> keeps \<open>a\<close>
  unless \<open>b < a\<close>; a comparison with not-a-number is false, so which operand is kept
  matters.
\<close>

definition py_max :: "'a::ord \<Rightarrow> 'a \<Rightarrow> 'a" where
  "py_max a b = (if a < b then b else a)"

definition py_min :: "'a::ord \<Rightarrow> 'a \<Rightarrow> 'a" where
  "py_min a b = (if b < a then b else a)"

subsection \<open>Floats\<close>

text \<open>
  \<open>Finite x\<close> is the double of value \<open>x\<close>; the two zeros of IEEE arithmetic, which
  compare equal, are the one value \<open>Finite 0\<close>.
\<close>

datatype pyfloat = Finite real | PosInf | NegInf | NaN

text \<open>The nearest integer, a tie going to the even one.\<close>

definition round_half_even :: "real \<Rightarrow> int" where
  "round_half_even x =
     (let f = \<lfloor>x\<rfloor>; d = x - of_int f
      in if d < 1 / 2 then f
         else if 1 / 2 < d then f + 1
         else if even f then f else f + 1)"

text \<open>
  Rounding of an exact result to a double (binary64, round to nearest, ties to even): 53
  significant bits, a spacing of no less than \<open>2 powi - 1074\<close>, and an infinity once the
  rounded value reaches \<open>2 ^ 1024\<close>.
\<close>

definition fl :: "real \<Rightarrow> pyfloat" where
  "fl x =
     (if x = 0 then Finite 0
      else let e = max (\<lfloor>log 2 \<bar>x\<bar>\<rfloor> - 52) (- 1074);
               y = of_int (round_half_even (x / 2 powi e)) * 2 powi e
           in if 2 ^ 1024 \<le> \<bar>y\<bar> then (if 0 < x then PosInf else NegInf) else Finite y)"

text \<open>
  Float arithmetic and comparison. A comparison with \<open>NaN\<close> is false; a sum or product of
  finite values is rounded; the infinities follow IEEE 754.
\<close>

instantiation pyfloat :: "{zero, uminus, plus, minus, times, ord}"
begin

definition zero_pyfloat :: pyfloat where
  "zero_pyfloat = Finite 0"

fun uminus_pyfloat :: "pyfloat \<Rightarrow> pyfloat" where
  "uminus_pyfloat (Finite a) = Finite (- a)"
| "uminus_pyfloat PosInf = NegInf"
| "uminus_pyfloat NegInf = PosInf"
| "uminus_pyfloat NaN = NaN"

fun plus_pyfloat :: "pyfloat \<Rightarrow> pyfloat \<Rightarrow> pyfloat" where
  "plus_pyfloat (Finite a) (Finite b) = fl (a + b)"
| "plus_pyfloat NaN b = NaN"
| "plus_pyfloat a NaN = NaN"
| "plus_pyfloat PosInf NegInf = NaN"
| "plus_pyfloat NegInf PosInf = NaN"
| "plus_pyfloat PosInf b = PosInf"
| "plus_pyfloat a PosInf = PosInf"
| "plus_pyfloat NegInf b = NegInf"
| "plus_pyfloat a NegInf = NegInf"

definition minus_pyfloat :: "pyfloat \<Rightarrow> pyfloat \<Rightarrow> pyfloat" where
  "minus_pyfloat a b = a + (- b)"

fun times_pyfloat :: "pyfloat \<Rightarrow> pyfloat \<Rightarrow> pyfloat" where
  "times_pyfloat (Finite a) (Finite b) = fl (a * b)"
| "times_pyfloat NaN b = NaN"
| "times_pyfloat a NaN = NaN"
| "times_pyfloat (Finite a) PosInf = (if a = 0 then NaN else if 0 < a then PosInf else NegInf)"
| "times_pyfloat (Finite a) NegInf = (if a = 0 then NaN else if 0 < a then NegInf else PosInf)"
| "times_pyfloat PosInf (Finite b) = (if b = 0 then NaN else if 0 < b then PosInf else NegInf)"
| "times_pyfloat NegInf (Finite b) = (if b = 0 then NaN else if 0 < b then NegInf else PosInf)"
| "times_pyfloat PosInf PosInf = PosInf"
| "times_pyfloat PosInf NegInf = NegInf"
| "times_pyfloat NegInf PosInf = NegInf"
| "times_pyfloat NegInf NegInf = PosInf"

fun less_eq_pyfloat :: "pyfloat \<Rightarrow> pyfloat \<Rightarrow> bool" where
  "less_eq_pyfloat (Finite a) (Finite b) = (a \<le> b)"
| "less_eq_pyfloat NaN b = False"
| "less_eq_pyfloat a NaN = False"
| "less_eq_pyfloat NegInf b = True"
| "less_eq_pyfloat a PosInf = True"
| "less_eq_pyfloat PosInf b = False"
| "less_eq_pyfloat a NegInf = False"

fun less_pyfloat :: "pyfloat \<Rightarrow> pyfloat \<Rightarrow> bool" where
  "less_pyfloat (Finite a) (Finite b) = (a < b)"
| "less_pyfloat NaN b = False"
| "less_pyfloat a NaN = False"
| "less_pyfloat a NegInf = False"
| "less_pyfloat PosInf b = False"
| "less_pyfloat NegInf b = True"
| "less_pyfloat a PosInf = True"

instance ..

end

text \<open>
  \<open>a / b\<close> on floats raises \<open>ZeroDivisionError\<close> when \<open>b\<close> is zero, whatever \<open>a\<close> is;
  otherwise it is the IEEE quotient.
\<close>

fun float_truediv :: "pyfloat \<Rightarrow> pyfloat \<Rightarrow> error + pyfloat" where
  "float_truediv a (Finite b) =
     (if b = 0 then Inl ZeroDivisionError
      else Inr (case a of
                  Finite x \<Rightarrow> fl (x / b)
                | PosInf \<Rightarrow> if 0 < b then PosInf else NegInf
                | NegInf \<Rightarrow> if 0 < b then NegInf else PosInf
                | NaN \<Rightarrow> NaN))"
| "float_truediv a NaN = Inr NaN"
| "float_truediv (Finite x) b = Inr (Finite 0)"
| "float_truediv a b = Inr NaN"

text \<open>
  \<open>round(x)\<close> without a digit count returns an integer, and raises on an infinity and on
  not-a-number.
\<close>

fun py_round :: "pyfloat \<Rightarrow> error + int" where
  "py_round (Finite x) = Inr (round_half_even x)"
| "py_round NaN = Inl (ValueError ''cannot convert float NaN to integer'')"
| "py_round a = Inl (OverflowError ''cannot convert float infinity to integer'')"

text \<open>
  An integer that meets a float in a product is converted to a float first, which raises
  when the integer is beyond the doubles.
\<close>

definition int_to_float :: "int \<Rightarrow> error + pyfloat" where
  "int_to_float n =
     (case fl (of_int n) of
        Finite y \<Rightarrow> Inr (Finite y)
      | a \<Rightarrow> Inl (OverflowError ''int too large to convert to float''))"

text \<open>
  A list comprehension evaluates its elements from left to right and stops at the first
  exception.
\<close>

fun collect :: "('e + 'a) list \<Rightarrow> 'e + 'a list" where
  "collect [] = Inr []"
| "collect (x # xs) =
     (case x of
        Inl e \<Rightarrow> Inl e
      | Inr y \<Rightarrow> (case collect xs of Inl e \<Rightarrow> Inl e | Inr ys \<Rightarrow> Inr (y # ys)))"

subsection \<open>The operations\<close>

definition vector_addition :: "'a::plus list \<Rightarrow> 'a list \<Rightarrow> error + 'a list" where
  "vector_addition v1 v2 =
     (if length v1 \<noteq> length v2 then Inl DimensionMismatch
      else Inr (map (\<lambda>i. v1 ! i + v2 ! i) [0..<length v1]))"

definition vector_subtraction :: "'a::minus list \<Rightarrow> 'a list \<Rightarrow> error + 'a list" where
  "vector_subtraction v1 v2 =
     (if length v1 \<noteq> length v2 then Inl DimensionMismatch
      else Inr (map (\<lambda>i. v1 ! i - v2 ! i) [0..<length v1]))"

definition scalar_multiplication :: "vector \<Rightarrow> real \<Rightarrow> vector" where
  "scalar_multiplication v scalar = map (\<lambda>i. scalar * v ! i) [0..<length v]"

definition dot_product :: "vector \<Rightarrow> vector \<Rightarrow> error + real" where
  "dot_product v1 v2 =
     (if length v1 \<noteq> length v2 then Inl DimensionMismatch
      else Inr (sum_list (map (\<lambda>i. v1 ! i * v2 ! i) [0..<length v1])))"

definition cross_product :: "vector \<Rightarrow> vector \<Rightarrow> error + vector" where
  "cross_product v1 v2 =
     (if length v1 \<noteq> 3 \<or> length v2 \<noteq> 3 then Inl InvalidDimension
      else Inr [v1 ! 1 * v2 ! 2 - v1 ! 2 * v2 ! 1,
                v1 ! 2 * v2 ! 0 - v1 ! 0 * v2 ! 2,
                v1 ! 0 * v2 ! 1 - v1 ! 1 * v2 ! 0])"

text \<open>
  Projection and reflection divide by a dot product. Here it is computed exactly and is
  zero only for the zero vector; on floats the squares of a non-zero vector can round to
  zero, and the division then raises too.
\<close>

definition vector_projection :: "vector \<Rightarrow> vector \<Rightarrow> error + vector" where
  "vector_projection v1 v2 =
     (if length v1 \<noteq> length v2 then Inl DimensionMismatch
      else case dot_product v1 v2 of
        Inl e \<Rightarrow> Inl e
      | Inr dot_v1v2 \<Rightarrow>
          (case dot_product v2 v2 of
             Inl e \<Rightarrow> Inl e
           | Inr mag_v2_squared \<Rightarrow>
               (case py_div dot_v1v2 mag_v2_squared of
                  Inl e \<Rightarrow> Inl e
                | Inr q \<Rightarrow> Inr (scalar_multiplication v2 q))))"

definition vector_reflection :: "vector \<Rightarrow> vector \<Rightarrow> error + vector" where
  "vector_reflection v normal =
     (if length v \<noteq> length normal then Inl DimensionMismatch
      else case dot_product v normal of
        Inl e \<Rightarrow> Inl e
      | Inr dot_vn \<Rightarrow>
          (case dot_product normal normal of
             Inl e \<Rightarrow> Inl e
           | Inr dot_nn \<Rightarrow>
               (case py_div (2 * dot_vn) dot_nn of
                  Inl e \<Rightarrow> Inl e
                | Inr scalar \<Rightarrow> vector_subtraction v (scalar_multiplication normal scalar))))"

definition vector_refraction :: "vector \<Rightarrow> vector \<Rightarrow> real \<Rightarrow> error + vector" where
  "vector_refraction v normal eta =
     (if length v \<noteq> length normal then Inl DimensionMismatch
      else case dot_product v normal of
        Inl e \<Rightarrow> Inl e
      | Inr dot_vn \<Rightarrow>
          (let k = 1 - eta * eta * (1 - dot_vn * dot_vn)
           in if k < 0 then Inr (replicate (length v) 0)
              else case py_sqrt k of
                Inl e \<Rightarrow> Inl e
              | Inr sqrt_k \<Rightarrow>
                  vector_subtraction (scalar_multiplication v eta)
                    (scalar_multiplication normal (eta * dot_vn + sqrt_k))))"

text \<open>The third parameter \<open>ng\<close> is received and never read.\<close>

definition vector_face_forward :: "vector \<Rightarrow> vector \<Rightarrow> vector \<Rightarrow> error + vector" where
  "vector_face_forward n i ng =
     (case dot_product n i of
        Inl e \<Rightarrow> Inl e
      | Inr dot_ni \<Rightarrow> if dot_ni < 0 then Inr i else Inr (scalar_multiplication i (- 1)))"

definition vector_scale :: "vector \<Rightarrow> real \<Rightarrow> vector" where
  "vector_scale v s = map (\<lambda>i. v ! i * s) [0..<length v]"

definition vector_distance :: "vector \<Rightarrow> vector \<Rightarrow> error + real" where
  "vector_distance v1 v2 =
     (if length v1 \<noteq> length v2 then Inl DimensionMismatch
      else py_sqrt (sum_list (map (\<lambda>i. (v1 ! i - v2 ! i) ^ 2) [0..<length v1])))"

definition vector_length :: "vector \<Rightarrow> error + real" where
  "vector_length v = py_sqrt (sum_list (map (\<lambda>i. (v ! i) ^ 2) [0..<length v]))"

definition vector_absolute :: "vector \<Rightarrow> vector" where
  "vector_absolute v = map (\<lambda>i. \<bar>v ! i\<bar>) [0..<length v]"

definition vector_minimum :: "'a::ord list \<Rightarrow> 'a list \<Rightarrow> error + 'a list" where
  "vector_minimum v1 v2 =
     (if length v1 \<noteq> length v2 then Inl DimensionMismatch
      else Inr (map (\<lambda>i. py_min (v1 ! i) (v2 ! i)) [0..<length v1]))"

definition vector_maximum :: "'a::ord list \<Rightarrow> 'a list \<Rightarrow> error + 'a list" where
  "vector_maximum v1 v2 =
     (if length v1 \<noteq> length v2 then Inl DimensionMismatch
      else Inr (map (\<lambda>i. py_max (v1 ! i) (v2 ! i)) [0..<length v1]))"

definition vector_floor :: "vector \<Rightarrow> int list" where
  "vector_floor v = map (\<lambda>i. \<lfloor>v ! i\<rfloor>) [0..<length v]"

definition vector_ceil :: "vector \<Rightarrow> int list" where
  "vector_ceil v = map (\<lambda>i. \<lceil>v ! i\<rceil>) [0..<length v]"

text \<open>
  Snap is modelled on floats: the quotient can overflow to an infinity, on which \<open>round\<close>
  raises.
\<close>

definition vector_snap :: "pyfloat list \<Rightarrow> pyfloat \<Rightarrow> error + pyfloat list" where
  "vector_snap v increment =
     collect (map (\<lambda>i. case float_truediv (v ! i) increment of
                          Inl e \<Rightarrow> Inl e
                        | Inr q \<Rightarrow>
                            (case py_round q of
                               Inl e \<Rightarrow> Inl e
                             | Inr n \<Rightarrow>
                                 (case int_to_float n of
                                    Inl e \<Rightarrow> Inl e
                                  | Inr m \<Rightarrow> Inr (m * increment))))
                [0..<length v])"

definition vector_wrap ::
  "'a::ord list \<Rightarrow> 'a list \<Rightarrow> 'a list \<Rightarrow> error + 'a list" where
  "vector_wrap v min_values max_values =
     (if length v \<noteq> length min_values \<or> length v \<noteq> length max_values
      then Inl WrapDimensionMismatch
      else Inr (map (\<lambda>i. py_min (py_max (v ! i) (min_values ! i)) (max_values ! i))
                  [0..<length v]))"

definition vector_sin :: "vector \<Rightarrow> vector" where
  "vector_sin v = map (\<lambda>i. sin (v ! i)) [0..<length v]"

definition vector_cos :: "vector \<Rightarrow> vector" where
  "vector_cos v = map (\<lambda>i. cos (v ! i)) [0..<length v]"

definition vector_tan :: "vector \<Rightarrow> vector" where
  "vector_tan v = map (\<lambda>i. tan (v ! i)) [0..<length v]"

subsection \<open>The formulas of the specification\<close>

text \<open>
  The dot product as the specification writes it, the sum of \<open>v1\<^sub>i * v2\<^sub>i\<close> over the
  indices; the operations above are compared with it.
\<close>

definition dot_spec :: "vector \<Rightarrow> vector \<Rightarrow> real" where
  "dot_spec v1 v2 = (\<Sum>i<length v1. v1 ! i * v2 ! i)"

text \<open>
  Refraction as the specification's table gives it: \<open>k\<close> is computed from the dot product,
  a negative \<open>k\<close> gives the zero vector, otherwise the refracted direction.
\<close>

definition refraction_spec :: "vector \<Rightarrow> vector \<Rightarrow> real \<Rightarrow> vector" where
  "refraction_spec v normal eta =
     (let k = 1 - eta\<^sup>2 * (1 - (dot_spec v normal)\<^sup>2)
      in if k < 0 then replicate (length v) 0
         else map (\<lambda>i. eta * v ! i - (eta * dot_spec v normal + sqrt k) * normal ! i)
                [0..<length v])"

section \<open>Properties\<close>

subsection \<open>Auxiliary facts\<close>

lemma dot_product_eq_spec:
  "length v1 = length v2 \<Longrightarrow> dot_product v1 v2 = Inr (dot_spec v1 v2)"
  by (simp add: dot_product_def dot_spec_def interv_sum_list_conv_sum_set_nat atLeast0LessThan)

lemma collect_map_Inr: "collect (map (\<lambda>x. Inr (f x)) xs) = Inr (map f xs)"
  by (induction xs) simp_all

lemma collect_length: "collect xs = Inr ys \<Longrightarrow> length ys = length xs"
  by (induction xs arbitrary: ys) (auto split: sum.splits)

lemma length_scalar_multiplication: "length (scalar_multiplication v s) = length v"
  by (simp add: scalar_multiplication_def)

lemma py_max_real: "py_max a b = max a (b::real)"
  by (simp add: py_max_def max_def)

lemma py_min_real: "py_min a b = min a (b::real)"
  by (simp add: py_min_def min_def)

subsection \<open>Rounding to a double\<close>

lemma floor_log2_eqI:
  assumes "2 powi k \<le> x" and "x < 2 powi (k + 1)"
  shows "\<lfloor>log 2 x\<rfloor> = k"
proof -
  have "(0::real) < 2 powi k"
    by (rule zero_less_power_int) simp
  with assms(1) have pos: "0 < x"
    by linarith
  have "2 powr (real_of_int k) \<le> x"
    using assms(1) by (simp add: powr_real_of_int')
  moreover have "2 powr (real_of_int (k + 1)) = (2::real) powi (k + 1)"
    by (rule powr_real_of_int') simp_all
  then have "x < 2 powr (real_of_int k + 1)"
    using assms(2) by simp
  ultimately show ?thesis
    using pos by (simp add: floor_log_eq_powr_iff)
qed

lemma round_half_even_of_int: "round_half_even (of_int m) = m"
  by (simp add: round_half_even_def)

text \<open>A value with at most 53 significant bits in the normal range is a double: rounding keeps it.\<close>

lemma fl_exact:
  assumes "2 powi k \<le> \<bar>x\<bar>" and "\<bar>x\<bar> < 2 powi (k + 1)"
    and "- 1022 \<le> k" and "k \<le> 1023"
    and "x = of_int m * 2 powi (k - 52)"
  shows "fl x = Finite x"
proof -
  have "(0::real) < 2 powi k"
    by (rule zero_less_power_int) simp
  with assms(1) have nz: "x \<noteq> 0"
    by linarith
  have lg: "\<lfloor>log 2 \<bar>x\<bar>\<rfloor> = k"
    using assms(1,2) by (rule floor_log2_eqI)
  have e: "max (k - 52) (- 1074) = k - 52"
    using assms(3) by simp
  have q: "x / 2 powi (k - 52) = of_int m"
    using assms(5) by simp
  have "2 powi (k + 1) \<le> (2::real) powi 1024"
    using assms(4) by (intro power_int_increasing) simp_all
  then have small: "\<not> 2 ^ 1024 \<le> \<bar>x\<bar>"
    using assms(2) by (simp add: power_int_def)
  show ?thesis
    unfolding fl_def Let_def lg e q round_half_even_of_int
    using nz small assms(5) by simp
qed

lemma fl_0: "fl 0 = Finite 0"
  by (simp add: fl_def)

lemma fl_1: "fl 1 = Finite 1"
  by (rule fl_exact [where k = 0 and m = "2 ^ 52"]) (simp_all add: power_int_def power_one_over)

lemma fl_2: "fl 2 = Finite 2"
  by (rule fl_exact [where k = 1 and m = "2 ^ 52"]) (simp_all add: power_int_def power_one_over)

lemma fl_4: "fl 4 = Finite 4"
  by (rule fl_exact [where k = 2 and m = "2 ^ 52"]) (simp_all add: power_int_def power_one_over)

lemma fl_3_2: "fl (3 / 2) = Finite (3 / 2)"
  by (rule fl_exact [where k = 0 and m = "3 * 2 ^ 51"]) (simp_all add: power_int_def power_one_over)

lemma fl_ten16: "fl (10 ^ 16) = Finite (10 ^ 16)"
  by (rule fl_exact [where k = 53 and m = "5 * 10 ^ 15"]) (simp_all add: power_int_def power_one_over)

lemma fl_ten16_plus_1: "fl (1 + 10 ^ 16) = Finite (10 ^ 16)"
proof -
  have "\<lfloor>log 2 \<bar>1 + 10 ^ 16 :: real\<bar>\<rfloor> = 53"
    by (rule floor_log2_eqI) (simp_all add: power_int_def power_one_over)
  then show ?thesis
    by (simp add: fl_def Let_def round_half_even_def power_int_def)
qed

lemma fl_2_1024: "fl (2 ^ 1024) = PosInf"
proof -
  have "\<lfloor>log 2 \<bar>2 ^ 1024 :: real\<bar>\<rfloor> = 1024"
    by (rule floor_log2_eqI) (simp_all add: power_int_def power_one_over)
  then show ?thesis
    by (simp add: fl_def Let_def round_half_even_def power_int_def)
qed

subsection \<open>Refraction\<close>

text \<open>
  C1. For vectors \<open>v\<close> and \<open>normal\<close> of equal length and any \<open>eta\<close>, refraction returns
  without error what the specification's formula gives: with
  \<open>k = 1 - eta\<^sup>2 (1 - dot(v, normal)\<^sup>2)\<close>, the zero vector of the length of \<open>v\<close> when
  \<open>k < 0\<close>, and \<open>eta v - (eta dot(v, normal) + sqrt k) normal\<close> otherwise.
\<close>

theorem refraction_formula:
  assumes "length v = length normal"
  shows "vector_refraction v normal eta = Inr (refraction_spec v normal eta)"
  using assms
  by (simp add: vector_refraction_def refraction_spec_def dot_product_eq_spec Let_def
      py_sqrt_def vector_subtraction_def scalar_multiplication_def power2_eq_square)

theorem refraction_formula_witness:
  "length [0, - 1 :: real] = length [0, 1 :: real]
   \<and> vector_refraction [0, - 1] [0, 1] 1 = Inr [0, - 1]
   \<and> vector_refraction [1, 0] [0, 1] 2 = Inr [0, 0]"
  using refraction_formula [of "[0, - 1]" "[0, 1]" 1] refraction_formula [of "[1, 0]" "[0, 1]" 2]
  by (simp add: refraction_spec_def dot_spec_def lessThan_Suc upt_conv_Cons numeral_2_eq_2)

subsection \<open>Snap\<close>

text \<open>
  C2, as the code has it. Snap never inspects \<open>increment\<close>. On the empty vector it divides
  nothing and returns the empty vector, whatever the increment is; on a non-empty vector a
  zero increment makes the division of the first component raise \<open>ZeroDivisionError\<close>.
\<close>

theorem snap_unguarded:
  "vector_snap [] increment = Inr [] \<and> vector_snap (x # xs) 0 = Inl ZeroDivisionError"
  by (simp add: vector_snap_def zero_pyfloat_def upt_conv_Cons del: upt_Suc)

text \<open>
  A zero increment is not always rejected: on the empty vector the call returns normally.
\<close>

theorem snap_zero_increment_accepted: "vector_snap [] 0 = Inr []"
  by (simp add: vector_snap_def)

text \<open>
  With a non-zero increment snap can still raise: the quotient of \<open>2 ^ 1023\<close> by \<open>0.5\<close>
  overflows to an infinity, which \<open>round\<close> refuses.
\<close>

lemma snap_round_overflow:
  "vector_snap [Finite (2 ^ 1023)] (Finite (1 / 2)) =
     Inl (OverflowError ''cannot convert float infinity to integer'')"
  using fl_2_1024 by (simp add: vector_snap_def)

subsection \<open>Operands of different lengths\<close>

text \<open>
  C3. When two operands differ in length, addition, subtraction, dot product, projection,
  reflection, refraction, distance, minimum and maximum raise the dimension error and
  return nothing; so does wrap as soon as any two of its three operands differ in length.
\<close>

theorem mismatch_raises:
  assumes "length v1 \<noteq> length v2"
  shows "vector_addition v1 v2 = Inl DimensionMismatch
       \<and> vector_subtraction v1 v2 = Inl DimensionMismatch
       \<and> dot_product v1 v2 = Inl DimensionMismatch
       \<and> vector_projection v1 v2 = Inl DimensionMismatch
       \<and> vector_reflection v1 v2 = Inl DimensionMismatch
       \<and> vector_refraction v1 v2 eta = Inl DimensionMismatch
       \<and> vector_distance v1 v2 = Inl DimensionMismatch
       \<and> vector_minimum v1 v2 = Inl DimensionMismatch
       \<and> vector_maximum v1 v2 = Inl DimensionMismatch
       \<and> vector_wrap v1 v2 w = Inl WrapDimensionMismatch
       \<and> vector_wrap v1 w v2 = Inl WrapDimensionMismatch
       \<and> vector_wrap w v1 v2 = Inl WrapDimensionMismatch"
proof -
  have "length w \<noteq> length v1 \<or> length w \<noteq> length v2"
    using assms by auto
  then have "vector_wrap w v1 v2 = Inl WrapDimensionMismatch"
    by (simp add: vector_wrap_def)
  with assms show ?thesis
    by (simp add: vector_addition_def vector_subtraction_def dot_product_def
        vector_projection_def vector_reflection_def vector_refraction_def vector_distance_def
        vector_minimum_def vector_maximum_def vector_wrap_def)
qed

theorem mismatch_raises_witness:
  "length [1, 2 :: real] \<noteq> length [3 :: real]
   \<and> vector_addition [1, 2 :: real] [3] = Inl DimensionMismatch
   \<and> dot_product [1, 2] [3] = Inl DimensionMismatch
   \<and> vector_refraction [1, 2] [3] 1 = Inl DimensionMismatch
   \<and> vector_wrap [1, 2 :: real] [3] [0, 0] = Inl WrapDimensionMismatch
   \<and> vector_wrap [5, 6, 7 :: real] [1, 2] [3] = Inl WrapDimensionMismatch"
  using mismatch_raises [of "[1, 2]" "[3]" 1 "[0, 0]"] mismatch_raises [of "[1, 2]" "[3]" 1 "[5, 6, 7]"]
  by simp

subsection \<open>Face-forward\<close>

text \<open>
  C4. For \<open>n\<close> and \<open>i\<close> of equal length, face-forward returns \<open>i\<close> itself when
  \<open>dot(n, i) < 0\<close> and \<open>i\<close> scaled by \<open>-1\<close> otherwise; the result does not depend on \<open>ng\<close>.
\<close>

theorem face_forward_result:
  assumes "length n = length i"
  shows "vector_face_forward n i ng =
           Inr (if dot_spec n i < 0 then i else scalar_multiplication i (- 1))"
  using assms by (simp add: vector_face_forward_def dot_product_eq_spec)

theorem face_forward_result_witness:
  "length [1, 2 :: real] = length [- 1, - 1 :: real]
   \<and> vector_face_forward [1, 2] [- 1, - 1] [7] = Inr [- 1, - 1]
   \<and> vector_face_forward [1, 2] [1, 1] [7] = Inr [- 1, - 1]"
  using face_forward_result [of "[1, 2]" "[- 1, - 1]" "[7]"]
    face_forward_result [of "[1, 2]" "[1, 1]" "[7]"]
  by (simp add: dot_spec_def scalar_multiplication_def lessThan_Suc upt_conv_Cons numeral_2_eq_2)

text \<open>
  C9. Face-forward never looks at \<open>ng\<close>: for \<open>n\<close> and \<open>i\<close> of equal length the call
  succeeds with one and the same result for every \<open>ng\<close>, of whatever length.
\<close>

theorem face_forward_ignores_ng:
  assumes "length n = length i"
  shows "\<exists>r. \<forall>ng. vector_face_forward n i ng = Inr r"
  using assms by (simp add: vector_face_forward_def dot_product_def)

theorem face_forward_ignores_ng_witness:
  "length [1, 2 :: real] = length [1, 1 :: real]
   \<and> vector_face_forward [1, 2] [1, 1] [] = Inr [- 1, - 1]
   \<and> vector_face_forward [1, 2] [1, 1] [4, 5, 6] = Inr [- 1, - 1]"
  using face_forward_ignores_ng [of "[1, 2]" "[1, 1]"]
  by (auto simp add: vector_face_forward_def dot_product_def scalar_multiplication_def upt_conv_Cons)

subsection \<open>Wrap\<close>

lemma clamp_pyfloat:
  fixes x lo hi :: pyfloat
  assumes "x \<noteq> NaN" and "lo \<le> hi"
  shows "lo \<le> py_min (py_max x lo) hi \<and> py_min (py_max x lo) hi \<le> hi
         \<and> py_min (py_max x lo) hi = (if x < lo then lo else if hi < x then hi else x)"
  using assms by (cases x; cases lo; cases hi) (auto simp add: py_min_def py_max_def)

text \<open>
  C5, as the code has it. For float vectors \<open>v\<close>, \<open>min_values\<close> and \<open>max_values\<close> of equal
  length, with no component of \<open>v\<close> being not-a-number and every lower bound at most the
  upper bound, wrap succeeds and every component of the result lies between its bounds.
  The result is the clamp of the component: the lower bound when the component is below
  it, the upper bound when above, and the component itself when it is inside.
\<close>

theorem wrap_clamps:
  fixes v min_values max_values :: "pyfloat list"
  assumes "length min_values = length v" and "length max_values = length v"
    and "\<forall>i<length v. v ! i \<noteq> NaN"
    and "\<forall>i<length v. min_values ! i \<le> max_values ! i"
  shows "\<exists>r. vector_wrap v min_values max_values = Inr r \<and> length r = length v
           \<and> (\<forall>i<length v. min_values ! i \<le> r ! i \<and> r ! i \<le> max_values ! i
                 \<and> r ! i = (if v ! i < min_values ! i then min_values ! i
                             else if max_values ! i < v ! i then max_values ! i
                             else v ! i))"
proof -
  let ?r = "map (\<lambda>i. py_min (py_max (v ! i) (min_values ! i)) (max_values ! i)) [0..<length v]"
  have res: "vector_wrap v min_values max_values = Inr ?r"
    using assms(1,2) by (simp add: vector_wrap_def)
  have len: "length ?r = length v"
    by simp
  have comp: "min_values ! i \<le> ?r ! i \<and> ?r ! i \<le> max_values ! i
        \<and> ?r ! i = (if v ! i < min_values ! i then min_values ! i
                     else if max_values ! i < v ! i then max_values ! i
                     else v ! i)" if "i < length v" for i
  proof -
    from that assms(3,4) have "v ! i \<noteq> NaN" and "min_values ! i \<le> max_values ! i"
      by simp_all
    note c = clamp_pyfloat [OF this]
    have eq: "?r ! i = py_min (py_max (v ! i) (min_values ! i)) (max_values ! i)"
      using that by simp
    show ?thesis
      unfolding eq by (rule c)
  qed
  from res len comp show ?thesis
    by blast
qed

theorem wrap_clamps_witness:
  "length [Finite 0, Finite 0, Finite 0] = length [Finite 5, NegInf, PosInf]
   \<and> length [Finite 8, Finite 8, Finite 8] = length [Finite 5, NegInf, PosInf]
   \<and> [Finite 5, NegInf, PosInf] ! 0 \<noteq> NaN
   \<and> [Finite 5, NegInf, PosInf] ! 1 \<noteq> NaN
   \<and> [Finite 5, NegInf, PosInf] ! 2 \<noteq> NaN
   \<and> Finite 0 \<le> Finite 8
   \<and> vector_wrap [Finite 5, NegInf, PosInf] [Finite 0, Finite 0, Finite 0]
        [Finite 8, Finite 8, Finite 8] = Inr [Finite 5, Finite 0, Finite 8]"
  using wrap_clamps [of "[Finite 0, Finite 0, Finite 0]" "[Finite 5, NegInf, PosInf]"
      "[Finite 8, Finite 8, Finite 8]"]
  by (simp add: vector_wrap_def py_min_def py_max_def upt_conv_Cons less_Suc_eq numeral_3_eq_3
      all_conj_distrib)

text \<open>
  A component that is not-a-number passes through wrap unchanged and lies within no
  bounds, although the bounds are in order.
\<close>

theorem wrap_nan_unclamped:
  "Finite 0 \<le> Finite 8
   \<and> vector_wrap [NaN] [Finite 0] [Finite 8] = Inr [NaN]
   \<and> \<not> Finite 0 \<le> NaN \<and> \<not> NaN \<le> Finite 8"
  by (simp add: vector_wrap_def py_min_def py_max_def)

subsection \<open>Cross product\<close>



subsection \<open>Addition and subtraction\<close>

text \<open>
  C7, as the code has it. For \<open>a\<close> and \<open>b\<close> of equal length over numbers whose addition
  and subtraction are exact (Python's integers and fractions; the reals), adding \<open>b\<close> to
  \<open>a\<close> succeeds and subtracting \<open>b\<close> from the sum gives back \<open>a\<close> exactly.
\<close>

theorem add_sub_roundtrip:
  fixes a b :: "'a::group_add list"
  assumes "length a = length b"
  shows "\<exists>s. vector_addition a b = Inr s \<and> vector_subtraction s b = Inr a"
  using assms
  by (auto simp add: vector_addition_def vector_subtraction_def intro: nth_equalityI)

theorem add_sub_roundtrip_witness:
  "length [1, 2, 3 :: int] = length [4, 5, 6 :: int]
   \<and> vector_addition [1, 2, 3] [4, 5, 6 :: int] = Inr [5, 7, 9]
   \<and> vector_subtraction [5, 7, 9] [4, 5, 6 :: int] = Inr [1, 2, 3]"
  using add_sub_roundtrip [of "[1, 2, 3 :: int]" "[4, 5, 6]"]
  by (auto simp add: vector_addition_def upt_conv_Cons)

text \<open>
  On floats the sum is rounded and the round trip can lose \<open>a\<close> altogether: \<open>1.0\<close> and
  \<open>1e16\<close> are doubles, their sum rounds to \<open>1e16\<close>, and subtracting \<open>1e16\<close> again leaves
  \<open>0.0\<close> where \<open>a\<close> was \<open>1.0\<close>.
\<close>

theorem add_sub_roundtrip_float_loses:
  "fl 1 = Finite 1 \<and> fl (10 ^ 16) = Finite (10 ^ 16)
   \<and> vector_addition [Finite 1] [Finite (10 ^ 16)] = Inr [Finite (10 ^ 16)]
   \<and> vector_subtraction [Finite (10 ^ 16)] [Finite (10 ^ 16)] = Inr [Finite 0]
   \<and> Finite 0 \<noteq> Finite 1"
  using fl_1 fl_ten16 fl_ten16_plus_1 fl_0
  by (simp add: vector_addition_def vector_subtraction_def minus_pyfloat_def)

subsection \<open>Scalar multiplication and scale\<close>

text \<open>
  C8. Scalar multiplication and scale compute the same vector for every vector and scalar.
\<close>

theorem scalar_multiplication_eq_scale: "scalar_multiplication v s = vector_scale v s"
  by (simp add: scalar_multiplication_def vector_scale_def mult.commute)

subsection \<open>Lengths of results\<close>

text \<open>
  C10. Every operation that returns a vector returns one of the length of its input \<open>v\<close>.
  Given a second operand \<open>v2\<close> and a third operand \<open>v3\<close> of that length, the operations
  that cannot raise on such operands succeed with a result as long as \<open>v\<close> (the cross
  product for length 3). Projection, reflection and snap can raise on operands of equal
  length; whenever they return a vector, it is as long as their first operand. Refraction
  is covered in both of its branches.
\<close>

theorem length_preserved:
  assumes "length v2 = length v" and "length v3 = length v"
  shows "(\<exists>r. vector_addition v v2 = Inr r \<and> length r = length v)
       \<and> (\<exists>r. vector_subtraction v v2 = Inr r \<and> length r = length v)
       \<and> length (scalar_multiplication v s) = length v
       \<and> (length v = 3 \<longrightarrow> (\<exists>r. cross_product v v2 = Inr r \<and> length r = length v))
       \<and> (\<forall>r. vector_projection v v2 = Inr r \<longrightarrow> length r = length v)
       \<and> (\<forall>r. vector_reflection v v2 = Inr r \<longrightarrow> length r = length v)
       \<and> (\<exists>r. vector_refraction v v2 eta = Inr r \<and> length r = length v)
       \<and> (\<exists>r. vector_face_forward v2 v v3 = Inr r \<and> length r = length v)
       \<and> length (vector_scale v s) = length v
       \<and> length (vector_absolute v) = length v
       \<and> (\<exists>r. vector_minimum v v2 = Inr r \<and> length r = length v)
       \<and> (\<exists>r. vector_maximum v v2 = Inr r \<and> length r = length v)
       \<and> length (vector_floor v) = length v
       \<and> length (vector_ceil v) = length v
       \<and> (\<forall>r. vector_snap u increment = Inr r \<longrightarrow> length r = length u)
       \<and> (\<exists>r. vector_wrap v v2 v3 = Inr r \<and> length r = length v)
       \<and> length (vector_sin v) = length v
       \<and> length (vector_cos v) = length v
       \<and> length (vector_tan v) = length v"
proof -
  have add: "\<exists>r. vector_addition v v2 = Inr r \<and> length r = length v"
    using assms by (simp add: vector_addition_def)
  have sub: "\<exists>r. vector_subtraction v v2 = Inr r \<and> length r = length v"
    using assms by (simp add: vector_subtraction_def)
  have cross: "length v = 3 \<longrightarrow> (\<exists>r. cross_product v v2 = Inr r \<and> length r = length v)"
    using assms by (simp add: cross_product_def)
  have proj: "\<forall>r. vector_projection v v2 = Inr r \<longrightarrow> length r = length v"
    using assms
    by (auto simp add: vector_projection_def dot_product_eq_spec py_div_def
        length_scalar_multiplication split: if_splits)
  have refl: "\<forall>r. vector_reflection v v2 = Inr r \<longrightarrow> length r = length v"
    using assms
    by (auto simp add: vector_reflection_def dot_product_eq_spec py_div_def
        vector_subtraction_def length_scalar_multiplication split: if_splits)
  have refr: "\<exists>r. vector_refraction v v2 eta = Inr r \<and> length r = length v"
    using assms
    by (simp add: vector_refraction_def dot_product_eq_spec py_sqrt_def Let_def
        vector_subtraction_def length_scalar_multiplication)
  have ff: "\<exists>r. vector_face_forward v2 v v3 = Inr r \<and> length r = length v"
    using assms
    by (simp add: vector_face_forward_def dot_product_eq_spec length_scalar_multiplication)
  have mn: "\<exists>r. vector_minimum v v2 = Inr r \<and> length r = length v"
    using assms by (simp add: vector_minimum_def)
  have mx: "\<exists>r. vector_maximum v v2 = Inr r \<and> length r = length v"
    using assms by (simp add: vector_maximum_def)
  have snap: "\<forall>r. vector_snap u increment = Inr r \<longrightarrow> length r = length u"
    by (auto simp add: vector_snap_def dest: collect_length)
  have wrap: "\<exists>r. vector_wrap v v2 v3 = Inr r \<and> length r = length v"
    using assms by (simp add: vector_wrap_def)
  have un: "length (vector_scale v s) = length v" "length (vector_absolute v) = length v"
    "length (vector_floor v) = length v" "length (vector_ceil v) = length v"
    "length (vector_sin v) = length v" "length (vector_cos v) = length v"
    "length (vector_tan v) = length v"
    by (simp_all add: vector_scale_def vector_absolute_def vector_floor_def vector_ceil_def
        vector_sin_def vector_cos_def vector_tan_def)
  from add sub cross proj refl refr ff mn mx snap wrap un length_scalar_multiplication
  show ?thesis by blast
qed

theorem length_preserved_witness:
  "length [0, 1, 0 :: real] = length [1, 0, 0 :: real]
   \<and> length [8, 8, 8 :: real] = length [1, 0, 0 :: real]
   \<and> length [1, 0, 0 :: real] = 3
   \<and> vector_projection [1, 0, 0] [0, 1, 0] = Inr [0, 0, 0]
   \<and> vector_reflection [1, 0, 0] [0, 1, 0] = Inr [1, 0, 0]
   \<and> vector_snap [Finite 3, Finite 0] (Finite 2) = Inr [Finite 4, Finite 0]
   \<and> (\<exists>r. cross_product [1, 0, 0] [0, 1, 0] = Inr r \<and> length r = 3)
   \<and> (\<exists>r. vector_refraction [1, 0, 0] [0, 1, 0] 2 = Inr r \<and> length r = 3)
   \<and> (\<exists>r. vector_wrap [1, 0, 0] [0, 1, 0] [8, 8, 8 :: real] = Inr r \<and> length r = 3)"
proof -
  have snap: "vector_snap [Finite 3, Finite 0] (Finite 2) = Inr [Finite 4, Finite 0]"
    by (simp add: vector_snap_def upt_conv_Cons fl_3_2 fl_2 fl_4 fl_0 int_to_float_def
        round_half_even_def)
  have proj: "vector_projection [1, 0, 0] [0, 1, 0] = Inr [0, 0, 0]"
    by (simp add: vector_projection_def dot_product_def py_div_def scalar_multiplication_def
        upt_conv_Cons)
  have refl: "vector_reflection [1, 0, 0] [0, 1, 0] = Inr [1, 0, 0]"
    by (simp add: vector_reflection_def dot_product_def py_div_def scalar_multiplication_def
        vector_subtraction_def upt_conv_Cons)
  show ?thesis
    using length_preserved [of "[0, 1, 0]" "[1, 0, 0]" "[8, 8, 8]" 2 2 "[Finite 3, Finite 0]"
        "Finite 2"] snap proj refl
    by (simp add: numeral_3_eq_3)
qed

end
